theory Spec2Isabelle
  imports Main
begin

section \<open>JavaScript values and React elements\<close>

text \<open>
  The component in \<^verbatim>\<open>button.tsx\<close> is a function from a property bag (and the values
  its hooks return) to a React element. The values it handles are JavaScript values:
  primitives, functions (event handlers, callback refs), arrays, plain objects and React
  elements. An object is a map from property names to values; a React element is its
  type together with its props object. Numbers are modelled by integers (the file only
  writes the literals 0 and 1); a function is identified by its source text.
\<close>

datatype element_type =
    Host string
  | Chakra string
  | Component string
  | Comp_Fragment
  | Comp_ButtonSpinner
  | Comp_ButtonIcon
  | Comp_ButtonContent

datatype jsval =
    JUndefined
  | JNull
  | JBool bool
  | JNumber int
  | JString string
  | JFunction string
  | JArray "jsval list"
  | JObject "string \<Rightarrow> jsval option"
  | JElement element_type "string \<Rightarrow> jsval option"

type_synonym jsobj = "string \<Rightarrow> jsval option"

subsection \<open>Operators of the language\<close>

text \<open>Truthiness, as \<^verbatim>\<open>Boolean(v)\<close>, \<^verbatim>\<open>!!v\<close> and the conditions of
  \<^verbatim>\<open>&&\<close>, \<^verbatim>\<open>||\<close> and \<^verbatim>\<open>?:\<close> read it.\<close>

fun truthy :: "jsval \<Rightarrow> bool" where
  "truthy JUndefined = False"
| "truthy JNull = False"
| "truthy (JBool b) = b"
| "truthy (JNumber n) = (n \<noteq> 0)"
| "truthy (JString s) = (s \<noteq> [])"
| "truthy (JFunction f) = True"
| "truthy (JArray xs) = True"
| "truthy (JObject m) = True"
| "truthy (JElement t p) = True"

fun nullish :: "jsval \<Rightarrow> bool" where
  "nullish JUndefined = True"
| "nullish JNull = True"
| "nullish v = False"

text \<open>\<^verbatim>\<open>a || b\<close>, \<^verbatim>\<open>a && b\<close> and \<^verbatim>\<open>a ?? b\<close> return one of their operands.\<close>

definition js_or :: "jsval \<Rightarrow> jsval \<Rightarrow> jsval" where
  "js_or a b = (if truthy a then a else b)"

definition js_and :: "jsval \<Rightarrow> jsval \<Rightarrow> jsval" where
  "js_and a b = (if truthy a then b else a)"

definition js_coalesce :: "jsval \<Rightarrow> jsval \<Rightarrow> jsval" where
  "js_coalesce a b = (if nullish a then b else a)"

text \<open>\<^verbatim>\<open>v === "text"\<close>: strict equality with a string literal.\<close>

fun is_string :: "jsval \<Rightarrow> string \<Rightarrow> bool" where
  "is_string (JString s) t = (s = t)"
| "is_string v t = False"

text \<open>Reading a property of an object: a missing property reads as \<^verbatim>\<open>undefined\<close>.\<close>

definition obj_get :: "jsobj \<Rightarrow> string \<Rightarrow> jsval" where
  "obj_get m k = (case m k of None \<Rightarrow> JUndefined | Some v \<Rightarrow> v)"

text \<open>A destructuring default \<^verbatim>\<open>{ x = d }\<close> applies when the property reads as
  \<^verbatim>\<open>undefined\<close>, and only then (\<^verbatim>\<open>null\<close> is kept).\<close>

fun is_undefined :: "jsval \<Rightarrow> bool" where
  "is_undefined JUndefined = True"
| "is_undefined v = False"

fun default_to :: "jsval \<Rightarrow> jsval \<Rightarrow> jsval" where
  "default_to JUndefined d = d"
| "default_to v d = v"

text \<open>\<^verbatim>\<open>omit\<close> and the rest pattern \<^verbatim>\<open>{ a, b, ...rest }\<close>: the object without the
  listed properties.\<close>

definition omit :: "jsobj \<Rightarrow> string list \<Rightarrow> jsobj" where
  "omit m ks = m |` (- set ks)"

subsection \<open>Conversion to string\<close>

function digits :: "nat \<Rightarrow> string" where
  "digits n = (if n < 10 then [char_of (48 + n)] else digits (n div 10) @ [char_of (48 + n mod 10)])"
  by pat_completeness auto
termination
  by (relation "measure (\<lambda>n. n)") auto

definition show_int :: "int \<Rightarrow> string" where
  "show_int i = (if i < 0 then CHR ''-'' # digits (nat (- i)) else digits (nat i))"

fun join :: "string \<Rightarrow> string list \<Rightarrow> string" where
  "join sep [] = []"
| "join sep [s] = s"
| "join sep (s # t # ss) = s @ sep @ join sep (t # ss)"

text \<open>\<^verbatim>\<open>String(v)\<close>, which \<^verbatim>\<open>Array.prototype.join\<close> applies to every item that is
  neither \<^verbatim>\<open>null\<close> nor \<^verbatim>\<open>undefined\<close> (those two give the empty string there).\<close>

fun js_to_string :: "jsval \<Rightarrow> string" where
  "js_to_string JUndefined = ''undefined''"
| "js_to_string JNull = ''null''"
| "js_to_string (JBool b) = (if b then ''true'' else ''false'')"
| "js_to_string (JNumber n) = show_int n"
| "js_to_string (JString s) = s"
| "js_to_string (JFunction src) = src"
| "js_to_string (JArray xs) =
     join '','' (map (\<lambda>x. if nullish x then [] else js_to_string x) xs)"
| "js_to_string (JObject m) = ''[object Object]''"
| "js_to_string (JElement t p) = ''[object Object]''"

subsection \<open>Object spread\<close>

text \<open>
  \<^verbatim>\<open>{ ...v }\<close> copies the own enumerable properties of \<^verbatim>\<open>v\<close>: the properties of an
  object, the indexed items of an array or a string, and nothing for \<^verbatim>\<open>undefined\<close>,
  \<^verbatim>\<open>null\<close>, a boolean, a number or a function. The style types of the file put a style
  object or \<^verbatim>\<open>undefined\<close> wherever it spreads a value; for a React element, whose own
  fields belong to React, the model copies nothing.
\<close>

definition indexed :: "jsval list \<Rightarrow> jsobj" where
  "indexed xs = map_of (zip (map digits [0 ..< length xs]) xs)"

fun js_spread :: "jsval \<Rightarrow> jsobj" where
  "js_spread (JObject m) = m"
| "js_spread (JArray xs) = indexed xs"
| "js_spread (JString s) = indexed (map (\<lambda>c. JString [c]) s)"
| "js_spread v = Map.empty"

section \<open>Collaborators outside the file\<close>

text \<open>\<^verbatim>\<open>isValidElement\<close> of React: is the value a React element?\<close>

fun isValidElement :: "jsval \<Rightarrow> bool" where
  "isValidElement (JElement t p) = True"
| "isValidElement v = False"

text \<open>Modelled from the spec: \<^verbatim>\<open>objectFilter\<close> is a helper of the utilities package,
  imported by the file and not part of it. It filters the properties of an object: the
  result keeps exactly the properties whose value passes the test.\<close>

definition objectFilter :: "jsobj \<Rightarrow> (jsval \<Rightarrow> bool) \<Rightarrow> jsobj" where
  "objectFilter object fn =
     (\<lambda>key. case object key of
        None \<Rightarrow> None
      | Some v \<Rightarrow> if fn v then Some v else None)"

text \<open>Modelled from the spec: \<^verbatim>\<open>dataAttr\<close> is a helper of the utilities package,
  imported by the file and not part of it. It gives the value of a data attribute that
  reflects a boolean: present (with the empty value) when the flag is truthy, absent
  otherwise, never the text "false".\<close>

definition dataAttr :: "jsval \<Rightarrow> jsval" where
  "dataAttr condition = (if truthy condition then JString [] else JUndefined)"

text \<open>Modelled from the spec: \<^verbatim>\<open>cx\<close> is the class-name concatenation helper of the
  utilities package, imported by the file and not part of it. It joins the class names
  that are supplied, separated by a space.\<close>

definition cx :: "jsval list \<Rightarrow> jsval" where
  "cx classNames = JString (join '' '' (map js_to_string (filter truthy classNames)))"

text \<open>Modelled from the spec: \<^verbatim>\<open>omitThemingProps\<close> is a helper of the styling package,
  imported by the file and not part of it. It drops the theming-variant selector that the
  theme engine resolves (style variant, size and colour scheme, with the style-config
  override) and keeps every other property.\<close>

definition theming_names :: "string list" where
  "theming_names = [''styleConfig'', ''size'', ''variant'', ''colorScheme'']"

definition omitThemingProps :: "jsobj \<Rightarrow> jsobj" where
  "omitThemingProps props = omit props theming_names"

text \<open>
  The hooks the component calls are services of other modules: the button group's
  context (absent outside a group), the theme's style resolution, the default of the
  \<^verbatim>\<open>type\<close> attribute (with the ref it needs) and the merge of two refs. The model
  takes what they return as parameters; \<^verbatim>\<open>useMemo\<close> only caches a value that is a
  function of its dependencies and is left out.
\<close>

record hooks =
  useButtonGroup :: "jsobj option"
  useStyleConfig :: "string \<Rightarrow> jsobj \<Rightarrow> jsobj"
  useButtonType :: "jsval \<Rightarrow> jsval \<times> jsval"
  useMergeRefs :: "jsval \<Rightarrow> jsval \<Rightarrow> jsval"

text \<open>\<^verbatim>\<open>!!group\<close>, \<^verbatim>\<open>group?.isDisabled\<close> and \<^verbatim>\<open>{ ...group }\<close> for the optional
  group context.\<close>

definition in_group :: "jsobj option \<Rightarrow> bool" where
  "in_group grp = (case grp of None \<Rightarrow> False | Some g \<Rightarrow> True)"

definition group_get :: "jsobj option \<Rightarrow> string \<Rightarrow> jsval" where
  "group_get grp k = (case grp of None \<Rightarrow> JUndefined | Some g \<Rightarrow> obj_get g k)"

definition group_spread :: "jsobj option \<Rightarrow> jsobj" where
  "group_spread grp = (case grp of None \<Rightarrow> Map.empty | Some g \<Rightarrow> g)"

section \<open>The component\<close>

subsection \<open>omitValidElementProps\<close>

definition omitValidElementProps :: "jsobj \<Rightarrow> jsobj" where
  "omitValidElementProps props = objectFilter props (\<lambda>value. \<not> isValidElement value)"

subsection \<open>The destructured options\<close>

text \<open>The names the component takes out of its props; \<^verbatim>\<open>rest\<close> is everything else.\<close>

definition option_names :: "string list" where
  "option_names =
     [''isDisabled'', ''isLoading'', ''isActive'', ''children'', ''leftIcon'', ''rightIcon'',
      ''loadingText'', ''iconSpacing'', ''type'', ''spinner'', ''spinnerPlacement'',
      ''className'', ''as'', ''shouldWrapChildren'']"

record options =
  isDisabled :: jsval
  isLoading :: jsval
  isActive :: jsval
  children :: jsval
  leftIcon :: jsval
  rightIcon :: jsval
  loadingText :: jsval
  iconSpacing :: jsval
  type :: jsval
  spinner :: jsval
  spinnerPlacement :: jsval
  className :: jsval
  as :: jsval
  shouldWrapChildren :: jsval
  rest :: jsobj

definition destructure :: "jsobj option \<Rightarrow> jsobj \<Rightarrow> options" where
  "destructure grp p =
     \<lparr> isDisabled = default_to (obj_get p ''isDisabled'') (group_get grp ''isDisabled''),
       isLoading = obj_get p ''isLoading'',
       isActive = obj_get p ''isActive'',
       children = obj_get p ''children'',
       leftIcon = obj_get p ''leftIcon'',
       rightIcon = obj_get p ''rightIcon'',
       loadingText = obj_get p ''loadingText'',
       iconSpacing = default_to (obj_get p ''iconSpacing'') (JString ''0.5rem''),
       type = obj_get p ''type'',
       spinner = obj_get p ''spinner'',
       spinnerPlacement = default_to (obj_get p ''spinnerPlacement'') (JString ''start''),
       className = obj_get p ''className'',
       as = obj_get p ''as'',
       shouldWrapChildren = obj_get p ''shouldWrapChildren'',
       rest = omit p option_names \<rparr>"

subsection \<open>The style object\<close>

definition base_styles :: jsobj where
  "base_styles =
     [''display'' \<mapsto> JString ''inline-flex'',
      ''appearance'' \<mapsto> JString ''none'',
      ''alignItems'' \<mapsto> JString ''center'',
      ''justifyContent'' \<mapsto> JString ''center'',
      ''userSelect'' \<mapsto> JString ''none'',
      ''position'' \<mapsto> JString ''relative'',
      ''whiteSpace'' \<mapsto> JString ''nowrap'',
      ''verticalAlign'' \<mapsto> JString ''middle'',
      ''outline'' \<mapsto> JString ''none'']"

definition buttonStyles :: "jsobj \<Rightarrow> jsobj option \<Rightarrow> jsobj" where
  "buttonStyles styles grp =
     (let focus = (js_spread (obj_get styles ''_focus''))(''zIndex'' \<mapsto> JNumber 1)
      in base_styles ++ styles
           ++ js_spread (js_and (JBool (in_group grp)) (JObject [''_focus'' \<mapsto> JObject focus])))"

subsection \<open>ButtonContent\<close>

text \<open>\<^verbatim>\<open><ButtonIcon marginEnd={iconSpacing}>{leftIcon}</ButtonIcon>\<close> and its mirror
  image: the icon wrapped with its spacing on the named edge.\<close>

definition icon_node :: "string \<Rightarrow> jsval \<Rightarrow> jsval \<Rightarrow> jsval" where
  "icon_node edge spacing icon =
     JElement Comp_ButtonIcon [edge \<mapsto> spacing, ''children'' \<mapsto> icon]"


subsection \<open>Button\<close>

definition contentProps :: "options \<Rightarrow> jsobj" where
  "contentProps v =
     [''rightIcon'' \<mapsto> rightIcon v,
      ''leftIcon'' \<mapsto> leftIcon v,
      ''iconSpacing'' \<mapsto> iconSpacing v,
      ''children'' \<mapsto> children v,
      ''shouldWrapChildren'' \<mapsto> shouldWrapChildren v]"

definition ButtonSpinner :: "string \<Rightarrow> options \<Rightarrow> jsval" where
  "ButtonSpinner place v =
     JElement Comp_ButtonSpinner
       [''className'' \<mapsto> JString (''chakra-button__spinner--'' @ place),
        ''label'' \<mapsto> loadingText v,
        ''placement'' \<mapsto> JString place,
        ''spacing'' \<mapsto> iconSpacing v,
        ''children'' \<mapsto> spinner v]"

definition spinner_slot :: "string \<Rightarrow> options \<Rightarrow> jsval" where
  "spinner_slot place v =
     js_and (js_and (isLoading v) (JBool (is_string (spinnerPlacement v) place)))
       (ButtonSpinner place v)"

text \<open>\<^verbatim>\<open><chakra.span opacity={0}><ButtonContent {...contentProps} /></chakra.span>\<close>\<close>

definition hidden_content :: "options \<Rightarrow> jsval" where
  "hidden_content v =
     JElement (Chakra ''span'')
       [''opacity'' \<mapsto> JNumber 0,
        ''children'' \<mapsto> JElement Comp_ButtonContent (contentProps v)]"

definition content_slot :: "options \<Rightarrow> jsval" where
  "content_slot v =
     (if truthy (isLoading v)
      then js_or (loadingText v) (hidden_content v)
      else JElement Comp_ButtonContent (contentProps v))"

definition button_styles_of :: "hooks \<Rightarrow> jsobj \<Rightarrow> jsobj" where
  "button_styles_of h props =
     (let grp = useButtonGroup h;
          styleProps = omitValidElementProps props;
          styles = useStyleConfig h ''Button'' (group_spread grp ++ styleProps)
      in buttonStyles styles grp)"

text \<open>
  The root element. Its props are the attributes in the order the source writes them,
  then the spread of \<^verbatim>\<open>rest\<close>, which replaces an attribute of the same name; the
  three children written between the tags are its \<^verbatim>\<open>children\<close>. The merged ref is
  kept among the props, under \<^verbatim>\<open>ref\<close>.
\<close>

definition Button :: "hooks \<Rightarrow> jsobj \<Rightarrow> jsval \<Rightarrow> jsval" where
  "Button h props ref =
     (let grp = useButtonGroup h;
          v = destructure grp (omitThemingProps props);
          (ref', defaultType) = useButtonType h (as v)
      in JElement (Chakra ''button'')
           (([''disabled'' \<mapsto> js_or (isDisabled v) (isLoading v),
              ''ref'' \<mapsto> useMergeRefs h ref ref',
              ''as'' \<mapsto> as v,
              ''type'' \<mapsto> js_coalesce (type v) defaultType,
              ''data-active'' \<mapsto> dataAttr (isActive v),
              ''data-loading'' \<mapsto> dataAttr (isLoading v),
              ''__css'' \<mapsto> JObject (button_styles_of h props),
              ''className'' \<mapsto> cx [JString ''chakra-button'', className v]]
             ++ rest v)
            (''children'' \<mapsto>
               JArray [spinner_slot ''start'' v, content_slot v, spinner_slot ''end'' v])))"

section \<open>Reading a rendered tree\<close>

text \<open>The props of an element, one attribute of it, and its children in document
  order (a single child is stored as it is, several as an array).\<close>

fun props_of :: "jsval \<Rightarrow> jsobj" where
  "props_of (JElement t p) = p"
| "props_of v = Map.empty"

definition attr :: "jsval \<Rightarrow> string \<Rightarrow> jsval" where
  "attr e k = obj_get (props_of e) k"

fun as_list :: "jsval \<Rightarrow> jsval list" where
  "as_list (JArray xs) = xs"
| "as_list v = [v]"

definition child_slots :: "jsval \<Rightarrow> jsval list" where
  "child_slots e = as_list (attr e ''children'')"

text \<open>React renders nothing for \<^verbatim>\<open>undefined\<close>, \<^verbatim>\<open>null\<close>, a boolean, the empty string
  or a function, and an array child stands for its items; a number, a non-empty
  string and an element are nodes. (A plain object is not a valid child: the type
  \<^verbatim>\<open>ReactNode\<close> excludes it, and the model counts it as a node.)\<close>

fun renders :: "jsval \<Rightarrow> bool" where
  "renders JUndefined = False"
| "renders JNull = False"
| "renders (JBool b) = False"
| "renders (JString s) = (s \<noteq> [])"
| "renders (JFunction f) = False"
| "renders (JArray xs) = list_ex renders xs"
| "renders v = True"


text \<open>An attribute is on the DOM node unless its value is \<^verbatim>\<open>undefined\<close> or
  \<^verbatim>\<open>null\<close>.\<close>

definition attr_present :: "jsval \<Rightarrow> string \<Rightarrow> bool" where
  "attr_present e k = (\<not> nullish (attr e k))"


text \<open>Hooks of a button outside any group, with a theme that resolves no style.\<close>

definition plain_hooks :: hooks where
  "plain_hooks =
     \<lparr> useButtonGroup = None,
       useStyleConfig = (\<lambda>name ps. Map.empty),
       useButtonType = (\<lambda>a. (JNull, JString ''button'')),
       useMergeRefs = (\<lambda>r r'. r) \<rparr>"

text \<open>Hooks of a button inside a group that disables its buttons, with a theme that
  resolves a flex display and a focus ring.\<close>

definition grouped_hooks :: hooks where
  "grouped_hooks =
     \<lparr> useButtonGroup = Some [''isDisabled'' \<mapsto> JBool True],
       useStyleConfig =
         (\<lambda>name ps. [''display'' \<mapsto> JString ''flex'',
                     ''_focus'' \<mapsto> JObject [''boxShadow'' \<mapsto> JString ''outline'']]),
       useButtonType = (\<lambda>a. (JNull, JString ''button'')),
       useMergeRefs = (\<lambda>r r'. r) \<rparr>"

text \<open>The options as the component reads them: destructured from its props without
  the theming props, with the defaults of the group the hooks report.\<close>

definition options_of :: "hooks \<Rightarrow> jsobj \<Rightarrow> options" where
  "options_of h props = destructure (useButtonGroup h) (omitThemingProps props)"

text \<open>The type \<^verbatim>\<open>boolean | undefined\<close> of an optional flag such as
  \<^verbatim>\<open>isDisabled\<close>.\<close>

fun is_flag :: "jsval \<Rightarrow> bool" where
  "is_flag JUndefined = True"
| "is_flag (JBool b) = True"
| "is_flag v = False"


section \<open>Properties\<close>

subsection \<open>What the root element carries\<close>

lemma option_through_theming:
  "k \<in> set option_names \<Longrightarrow> obj_get (omitThemingProps props) k = obj_get props k"
  by (auto simp: obj_get_def omit_def omitThemingProps_def option_names_def theming_names_def)

lemma options_of_simps:
  "isDisabled (options_of h props) =
     default_to (obj_get props ''isDisabled'') (group_get (useButtonGroup h) ''isDisabled'')"
  "isLoading (options_of h props) = obj_get props ''isLoading''"
  "isActive (options_of h props) = obj_get props ''isActive''"
  "children (options_of h props) = obj_get props ''children''"
  "leftIcon (options_of h props) = obj_get props ''leftIcon''"
  "rightIcon (options_of h props) = obj_get props ''rightIcon''"
  "loadingText (options_of h props) = obj_get props ''loadingText''"
  "iconSpacing (options_of h props) =
     default_to (obj_get props ''iconSpacing'') (JString ''0.5rem'')"
  "type (options_of h props) = obj_get props ''type''"
  "spinner (options_of h props) = obj_get props ''spinner''"
  "spinnerPlacement (options_of h props) =
     default_to (obj_get props ''spinnerPlacement'') (JString ''start'')"
  "className (options_of h props) = obj_get props ''className''"
  "as (options_of h props) = obj_get props ''as''"
  "shouldWrapChildren (options_of h props) = obj_get props ''shouldWrapChildren''"
  by (simp_all add: options_of_def destructure_def option_through_theming option_names_def)

lemma rest_lookup:
  "rest (options_of h props) k =
     (if k \<in> set option_names \<or> k \<in> set theming_names then None else props k)"
  by (simp add: options_of_def destructure_def omit_def omitThemingProps_def restrict_map_def
        theming_names_def)

lemma props_of_Button:
  "props_of (Button h props r) =
     (let v = options_of h props in
      ([''disabled'' \<mapsto> js_or (isDisabled v) (isLoading v),
        ''ref'' \<mapsto> useMergeRefs h r (fst (useButtonType h (as v))),
        ''as'' \<mapsto> as v,
        ''type'' \<mapsto> js_coalesce (type v) (snd (useButtonType h (as v))),
        ''data-active'' \<mapsto> dataAttr (isActive v),
        ''data-loading'' \<mapsto> dataAttr (isLoading v),
        ''__css'' \<mapsto> JObject (button_styles_of h props),
        ''className'' \<mapsto> cx [JString ''chakra-button'', className v]]
        ++ rest v)
       (''children'' \<mapsto>
          JArray [spinner_slot ''start'' v, content_slot v, spinner_slot ''end'' v]))"
  by (simp add: Button_def options_of_def Let_def split: prod.splits)

lemma child_slots_Button:
  "child_slots (Button h props r) =
     [spinner_slot ''start'' (options_of h props), content_slot (options_of h props),
      spinner_slot ''end'' (options_of h props)]"
  by (simp add: child_slots_def attr_def obj_get_def props_of_Button Let_def)

lemma attr_disabled:
  "attr (Button h props r) ''disabled'' =
     (case props ''disabled'' of
        Some d \<Rightarrow> d
      | None \<Rightarrow> js_or (isDisabled (options_of h props)) (isLoading (options_of h props)))"
  by (simp add: attr_def obj_get_def props_of_Button Let_def map_add_def rest_lookup
        option_names_def theming_names_def split: option.splits)

lemma attr_data_active:
  "attr (Button h props r) ''data-active'' =
     (case props ''data-active'' of
        Some d \<Rightarrow> d
      | None \<Rightarrow> dataAttr (isActive (options_of h props)))"
  by (simp add: attr_def obj_get_def props_of_Button Let_def map_add_def rest_lookup
        option_names_def theming_names_def split: option.splits)

lemma attr_data_loading:
  "attr (Button h props r) ''data-loading'' =
     (case props ''data-loading'' of
        Some d \<Rightarrow> d
      | None \<Rightarrow> dataAttr (isLoading (options_of h props)))"
  by (simp add: attr_def obj_get_def props_of_Button Let_def map_add_def rest_lookup
        option_names_def theming_names_def split: option.splits)

lemma attr_className:
  "attr (Button h props r) ''className'' =
     cx [JString ''chakra-button'', className (options_of h props)]"
  by (simp add: attr_def obj_get_def props_of_Button Let_def map_add_def rest_lookup
        option_names_def theming_names_def split: option.splits)

lemma attr_css:
  "attr (Button h props r) ''__css'' =
     (case props ''__css'' of
        Some d \<Rightarrow> d
      | None \<Rightarrow> JObject (button_styles_of h props))"
  by (simp add: attr_def obj_get_def props_of_Button Let_def map_add_def rest_lookup
        option_names_def theming_names_def split: option.splits)

lemma passthrough_lookup:
  "k \<notin> set option_names \<Longrightarrow> k \<notin> set theming_names \<Longrightarrow> props k = Some x \<Longrightarrow>
   props_of (Button h props r) k = Some x"
  by (auto simp add: props_of_Button Let_def map_add_def rest_lookup option_names_def)

subsection \<open>Loading and the disabled attribute\<close>

text \<open>
  C1, at an input the claim covers: a button that is loading and is handed the HTML
  attribute \<^verbatim>\<open>disabled={false}\<close> among its passthrough props. The passthrough props are
  spread after the computed attribute, so the root carries \<^verbatim>\<open>disabled=false\<close>.
\<close>

theorem loading_disabled_overridden:
  "obj_get [''isLoading'' \<mapsto> JBool True, ''disabled'' \<mapsto> JBool False] ''isLoading'' = JBool True \<and>
   attr (Button plain_hooks [''isLoading'' \<mapsto> JBool True, ''disabled'' \<mapsto> JBool False] JNull)
     ''disabled'' = JBool False"
  by (simp add: attr_disabled obj_get_def)

text \<open>
  C1 (amended): for every input with \<^verbatim>\<open>isLoading=true\<close> and no passthrough property
  named \<^verbatim>\<open>disabled\<close>, the root's \<^verbatim>\<open>disabled\<close> attribute is truthy whatever
  \<^verbatim>\<open>isDisabled\<close> is, and it is exactly \<^verbatim>\<open>true\<close> when \<^verbatim>\<open>isDisabled\<close> and the group's
  default are booleans or absent, as their type says. A passthrough \<^verbatim>\<open>disabled\<close>
  property is forwarded as it is and replaces the computed value.
\<close>

theorem loading_forces_disabled:
  assumes "obj_get props ''isLoading'' = JBool True"
  shows "(props ''disabled'' = None \<longrightarrow> truthy (attr (Button h props r) ''disabled'')) \<and>
         (props ''disabled'' = None \<and> is_flag (obj_get props ''isDisabled'') \<and>
            is_flag (group_get (useButtonGroup h) ''isDisabled'') \<longrightarrow>
          attr (Button h props r) ''disabled'' = JBool True) \<and>
         (\<forall>d. props ''disabled'' = Some d \<longrightarrow> attr (Button h props r) ''disabled'' = d)"
proof -
  let ?d = "default_to (obj_get props ''isDisabled'') (group_get (useButtonGroup h) ''isDisabled'')"
  have computed: "props ''disabled'' = None \<Longrightarrow>
      attr (Button h props r) ''disabled'' = js_or ?d (JBool True)"
    using assms by (simp add: attr_disabled options_of_simps)
  have flag: "is_flag (obj_get props ''isDisabled'') \<Longrightarrow>
      is_flag (group_get (useButtonGroup h) ''isDisabled'') \<Longrightarrow> is_flag ?d"
    by (cases "obj_get props ''isDisabled''") auto
  have "is_flag ?d \<Longrightarrow> js_or ?d (JBool True) = JBool True"
    by (cases ?d) (auto simp: js_or_def)
  with computed flag show ?thesis
    by (auto simp: attr_disabled js_or_def)
qed

text \<open>The amended C1 at a loading button with \<^verbatim>\<open>isDisabled={false}\<close>, and at one with
  a passthrough \<^verbatim>\<open>disabled\<close>.\<close>

theorem loading_forces_disabled_witness:
  "attr (Button plain_hooks [''isLoading'' \<mapsto> JBool True, ''isDisabled'' \<mapsto> JBool False] JNull)
     ''disabled'' = JBool True \<and>
   attr (Button plain_hooks [''isLoading'' \<mapsto> JBool True, ''disabled'' \<mapsto> JString ''no''] JNull)
     ''disabled'' = JString ''no''"
  using loading_forces_disabled
    [of "[''isLoading'' \<mapsto> JBool True, ''isDisabled'' \<mapsto> JBool False]" plain_hooks JNull]
    loading_forces_disabled
    [of "[''isLoading'' \<mapsto> JBool True, ''disabled'' \<mapsto> JString ''no'']" plain_hooks JNull]
  by (simp add: obj_get_def group_get_def plain_hooks_def)

subsection \<open>The body of a loading button\<close>

lemma contentProps_get:
  "obj_get (contentProps v) ''rightIcon'' = rightIcon v"
  "obj_get (contentProps v) ''leftIcon'' = leftIcon v"
  "obj_get (contentProps v) ''iconSpacing'' = iconSpacing v"
  "obj_get (contentProps v) ''children'' = children v"
  "obj_get (contentProps v) ''shouldWrapChildren'' = shouldWrapChildren v"
  by (simp_all add: contentProps_def obj_get_def)








subsection \<open>Element-valued props\<close>

lemma omitValidElementProps_lookup:
  "omitValidElementProps props k =
     (case props k of None \<Rightarrow> None | Some v \<Rightarrow> if isValidElement v then None else Some v)"
  by (simp add: omitValidElementProps_def objectFilter_def split: option.splits)

lemma omitValidElementProps_element:
  "isValidElement e \<Longrightarrow>
   omitValidElementProps (props(k \<mapsto> e)) = omitValidElementProps (props(k := None))"
  by (rule ext) (simp add: omitValidElementProps_lookup)

lemma root_lookup:
  "props_of (Button h props r) k =
     (if k = ''children'' then Some (JArray [spinner_slot ''start'' (options_of h props),
         content_slot (options_of h props), spinner_slot ''end'' (options_of h props)])
      else case rest (options_of h props) k of
        Some x \<Rightarrow> Some x
      | None \<Rightarrow>
         [''disabled'' \<mapsto> js_or (isDisabled (options_of h props)) (isLoading (options_of h props)),
          ''ref'' \<mapsto> useMergeRefs h r (fst (useButtonType h (as (options_of h props)))),
          ''as'' \<mapsto> as (options_of h props),
          ''type'' \<mapsto> js_coalesce (type (options_of h props)) (snd (useButtonType h (as (options_of h props)))),
          ''data-active'' \<mapsto> dataAttr (isActive (options_of h props)),
          ''data-loading'' \<mapsto> dataAttr (isLoading (options_of h props)),
          ''__css'' \<mapsto> JObject (button_styles_of h props),
          ''className'' \<mapsto> cx [JString ''chakra-button'', className (options_of h props)]] k)"
  unfolding props_of_Button Let_def map_add_def by (simp split: option.splits)

lemma icons_not_on_root:
  "props_of (Button h props r) ''leftIcon'' = None"
  "props_of (Button h props r) ''rightIcon'' = None"
  "props_of (Button h props r) ''spinner'' = None"
  by (simp_all add: root_lookup rest_lookup option_names_def)


text \<open>
  C3, at an input the claim covers: a property bag with an element-valued property that
  is not one of the component's options. It is among the props the root receives.
\<close>

theorem element_prop_forwarded:
  "isValidElement (JElement (Host ''svg'') Map.empty) \<and>
   props_of (Button plain_hooks [''data-icon'' \<mapsto> JElement (Host ''svg'') Map.empty] JNull)
     ''data-icon'' = Some (JElement (Host ''svg'') Map.empty)"
  by (simp add: root_lookup rest_lookup option_names_def theming_names_def)

text \<open>
  C3 (amended): for every input property bag, \<^verbatim>\<open>omitValidElementProps\<close> keeps exactly
  the properties whose value is not an element, and its result is what the theme's style
  resolution reads, so that an element-valued property has no part in the styles.
  The passthrough properties are taken from the unfiltered props: every property that
  is neither an option of the component nor a theming prop is forwarded to the root as
  it is, element-valued or not. The element-valued options \<^verbatim>\<open>leftIcon\<close>,
  \<^verbatim>\<open>rightIcon\<close> and \<^verbatim>\<open>spinner\<close> are taken out by name and are not on the root.
\<close>

theorem element_props_filtered_for_styles:
  "(\<forall>k v. omitValidElementProps props k = Some v \<longrightarrow> \<not> isValidElement v \<and> props k = Some v) \<and>
   (\<forall>k v. props k = Some v \<and> \<not> isValidElement v \<longrightarrow> omitValidElementProps props k = Some v) \<and>
   (\<forall>k e. isValidElement e \<longrightarrow>
      button_styles_of h (props(k \<mapsto> e)) = button_styles_of h (props(k := None))) \<and>
   (\<forall>k v. props k = Some v \<and> k \<notin> set option_names \<and> k \<notin> set theming_names \<longrightarrow>
      props_of (Button h props r) k = Some v) \<and>
   props_of (Button h props r) ''leftIcon'' = None \<and>
   props_of (Button h props r) ''rightIcon'' = None \<and>
   props_of (Button h props r) ''spinner'' = None"
proof -
  have kept: "\<not> isValidElement v \<and> props k = Some v"
    if "omitValidElementProps props k = Some v" for k v
    using that by (auto simp: omitValidElementProps_lookup split: option.splits if_splits)
  have keeps: "omitValidElementProps props k = Some v"
    if "props k = Some v" "\<not> isValidElement v" for k v
    using that by (simp add: omitValidElementProps_lookup)
  have style: "button_styles_of h (props(k \<mapsto> e)) = button_styles_of h (props(k := None))"
    if "isValidElement e" for k e
    using that by (simp add: button_styles_of_def Let_def omitValidElementProps_element)
  have forwarded: "props_of (Button h props r) k = Some v"
    if "props k = Some v" "k \<notin> set option_names" "k \<notin> set theming_names" for k v
    using that by (simp add: passthrough_lookup)
  from kept keeps style forwarded show ?thesis
    unfolding icons_not_on_root by blast
qed

text \<open>The amended C3 at a button with an icon and a \<^verbatim>\<open>title\<close> attribute.\<close>

theorem element_props_filtered_for_styles_witness:
  "omitValidElementProps
     [''leftIcon'' \<mapsto> JElement (Host ''svg'') Map.empty, ''title'' \<mapsto> JString ''Save'']
     ''leftIcon'' = None \<and>
   props_of (Button plain_hooks
     [''leftIcon'' \<mapsto> JElement (Host ''svg'') Map.empty, ''title'' \<mapsto> JString ''Save''] JNull)
     ''title'' = Some (JString ''Save'') \<and>
   props_of (Button plain_hooks
     [''leftIcon'' \<mapsto> JElement (Host ''svg'') Map.empty, ''title'' \<mapsto> JString ''Save''] JNull)
     ''leftIcon'' = None"
proof -
  let ?p = "[''leftIcon'' \<mapsto> JElement (Host ''svg'') Map.empty, ''title'' \<mapsto> JString ''Save'']"
  note c = element_props_filtered_for_styles [of ?p plain_hooks JNull]
  have "omitValidElementProps ?p ''leftIcon'' = None"
  proof (cases "omitValidElementProps ?p ''leftIcon''")
    case (Some v)
    with c have "\<not> isValidElement v \<and> ?p ''leftIcon'' = Some v" by blast
    then show ?thesis by auto
  qed simp
  moreover have "?p ''title'' = Some (JString ''Save'') \<and> ''title'' \<notin> set option_names \<and>
      ''title'' \<notin> set theming_names"
    by (simp add: option_names_def theming_names_def)
  with c have "props_of (Button plain_hooks ?p JNull) ''title'' = Some (JString ''Save'')"
    by blast
  moreover from c have "props_of (Button plain_hooks ?p JNull) ''leftIcon'' = None"
    by blast
  ultimately show ?thesis by blast
qed


subsection \<open>Data attributes\<close>

text \<open>
  C4, at an input the claim covers: a button that is not active and is handed
  \<^verbatim>\<open>data-active="false"\<close> among its passthrough props. The attribute is on the root,
  with the value "false".
\<close>

theorem data_active_overridden:
  "\<not> truthy (obj_get [''data-active'' \<mapsto> JString ''false''] ''isActive'') \<and>
   attr (Button plain_hooks [''data-active'' \<mapsto> JString ''false''] JNull) ''data-active''
     = JString ''false'' \<and>
   attr_present (Button plain_hooks [''data-active'' \<mapsto> JString ''false''] JNull) ''data-active''"
  by (simp add: attr_present_def attr_data_active obj_get_def)

lemma dataAttr_present: "nullish (dataAttr c) = (\<not> truthy c)"
  by (simp add: dataAttr_def)

text \<open>
  C4 (amended): for every input without a passthrough property named
  \<^verbatim>\<open>data-active\<close>, the attribute \<^verbatim>\<open>data-active\<close> is present on the root if and only
  if \<^verbatim>\<open>isActive\<close> is truthy, and it is \<^verbatim>\<open>undefined\<close> (absent) when \<^verbatim>\<open>isActive\<close> is
  falsy; the same holds for \<^verbatim>\<open>data-loading\<close> and \<^verbatim>\<open>isLoading\<close>. A passthrough
  property of either name is forwarded as it is and replaces the computed attribute.
\<close>

theorem data_attributes:
  "(props ''data-active'' = None \<longrightarrow>
      attr_present (Button h props r) ''data-active'' = truthy (obj_get props ''isActive'') \<and>
      (\<not> truthy (obj_get props ''isActive'') \<longrightarrow>
         attr (Button h props r) ''data-active'' = JUndefined)) \<and>
   (props ''data-loading'' = None \<longrightarrow>
      attr_present (Button h props r) ''data-loading'' = truthy (obj_get props ''isLoading'') \<and>
      (\<not> truthy (obj_get props ''isLoading'') \<longrightarrow>
         attr (Button h props r) ''data-loading'' = JUndefined)) \<and>
   (\<forall>d. props ''data-active'' = Some d \<longrightarrow> attr (Button h props r) ''data-active'' = d) \<and>
   (\<forall>d. props ''data-loading'' = Some d \<longrightarrow> attr (Button h props r) ''data-loading'' = d)"
  by (simp add: attr_present_def attr_data_active attr_data_loading options_of_simps
        dataAttr_present) (simp add: dataAttr_def)

text \<open>The amended C4 at an active button that is not loading, and at one with a
  passthrough \<^verbatim>\<open>data-loading\<close>.\<close>

theorem data_attributes_witness:
  "attr_present (Button plain_hooks [''isActive'' \<mapsto> JBool True, ''isLoading'' \<mapsto> JBool False] JNull)
     ''data-active'' \<and>
   attr (Button plain_hooks [''isActive'' \<mapsto> JBool True, ''isLoading'' \<mapsto> JBool False] JNull)
     ''data-loading'' = JUndefined \<and>
   attr (Button plain_hooks [''data-loading'' \<mapsto> JString ''yes''] JNull) ''data-loading''
     = JString ''yes''"
  using data_attributes [of "[''isActive'' \<mapsto> JBool True, ''isLoading'' \<mapsto> JBool False]" plain_hooks JNull]
    data_attributes [of "[''data-loading'' \<mapsto> JString ''yes'']" plain_hooks JNull]
  by (simp add: obj_get_def)

subsection \<open>The spinner\<close>

lemma ButtonSpinner_attrs:
  "attr (ButtonSpinner place v) ''label'' = loadingText v"
  "attr (ButtonSpinner place v) ''spacing'' = iconSpacing v"
  "attr (ButtonSpinner place v) ''placement'' = JString place"
  "attr (ButtonSpinner place v) ''children'' = spinner v"
  by (simp_all add: ButtonSpinner_def attr_def obj_get_def)

lemma spinner_slot_cases:
  "spinner_slot place v =
     (if \<not> truthy (isLoading v) then isLoading v
      else if is_string (spinnerPlacement v) place then ButtonSpinner place v
      else JBool False)"
  by (simp add: spinner_slot_def js_and_def)







subsection \<open>The content\<close>


lemma renders_icon_node: "renders (icon_node edge s x)"
  by (simp add: icon_node_def)



subsection \<open>The style object\<close>

lemma in_group_iff: "in_group g = (g \<noteq> None)"
  by (simp add: in_group_def split: option.splits)

lemma buttonStyles_merge:
  "buttonStyles styles g =
     base_styles ++ styles ++
       (if in_group g
        then [''_focus'' \<mapsto> JObject ((js_spread (obj_get styles ''_focus''))(''zIndex'' \<mapsto> JNumber 1))]
        else Map.empty)"
  by (simp add: buttonStyles_def Let_def js_and_def)

lemma base_styles_focus: "base_styles ''_focus'' = None"
  by (simp add: base_styles_def)

text \<open>
  C7: for every input, the final style object is the base structural defaults
  (inline-flex display, centred items and content, no outline, relative position),
  overridden by the style the theme resolves for "Button", overridden in turn by a
  \<^verbatim>\<open>_focus\<close> entry that is the theme's focus style with \<^verbatim>\<open>zIndex\<close> set to 1; that
  last override is there exactly when the button is inside a group, and outside a group
  the \<^verbatim>\<open>_focus\<close> entry is the theme's own. The root carries this object as \<^verbatim>\<open>__css\<close>
  when no passthrough property of that name is supplied.
\<close>

theorem final_style_merge:
  "let g = useButtonGroup h;
       styles = useStyleConfig h ''Button'' (group_spread g ++ omitValidElementProps props);
       focus = (js_spread (obj_get styles ''_focus''))(''zIndex'' \<mapsto> JNumber 1)
   in button_styles_of h props =
        base_styles ++ styles ++ (if in_group g then [''_focus'' \<mapsto> JObject focus] else Map.empty) \<and>
      (\<forall>k. k \<noteq> ''_focus'' \<longrightarrow>
         button_styles_of h props k = (case styles k of Some v \<Rightarrow> Some v | None \<Rightarrow> base_styles k)) \<and>
      (in_group g \<longrightarrow> button_styles_of h props ''_focus'' = Some (JObject focus)) \<and>
      (\<not> in_group g \<longrightarrow> button_styles_of h props ''_focus'' = styles ''_focus'') \<and>
      in_group g = (g \<noteq> None) \<and>
      focus ''zIndex'' = Some (JNumber 1) \<and>
      (\<forall>k. k \<noteq> ''zIndex'' \<longrightarrow> focus k = js_spread (obj_get styles ''_focus'') k) \<and>
      base_styles ''display'' = Some (JString ''inline-flex'') \<and>
      base_styles ''alignItems'' = Some (JString ''center'') \<and>
      base_styles ''justifyContent'' = Some (JString ''center'') \<and>
      base_styles ''outline'' = Some (JString ''none'') \<and>
      base_styles ''position'' = Some (JString ''relative'') \<and>
      (props ''__css'' = None \<longrightarrow>
         attr (Button h props r) ''__css'' = JObject (button_styles_of h props))"
proof -
  define g where "g = useButtonGroup h"
  define styles where
    "styles = useStyleConfig h ''Button'' (group_spread g ++ omitValidElementProps props)"
  define focus where "focus = (js_spread (obj_get styles ''_focus''))(''zIndex'' \<mapsto> JNumber 1)"
  have merge: "button_styles_of h props =
      base_styles ++ styles ++ (if in_group g then [''_focus'' \<mapsto> JObject focus] else Map.empty)"
    by (simp add: button_styles_of_def Let_def buttonStyles_merge g_def styles_def focus_def)
  have other: "button_styles_of h props k =
      (case styles k of Some v \<Rightarrow> Some v | None \<Rightarrow> base_styles k)" if "k \<noteq> ''_focus''" for k
    using that by (simp add: merge map_add_def split: option.splits)
  have inside: "button_styles_of h props ''_focus'' = Some (JObject focus)" if "in_group g"
    using that by (simp add: merge)
  have outside: "button_styles_of h props ''_focus'' = styles ''_focus''" if "\<not> in_group g"
    using that by (simp add: merge map_add_def base_styles_focus split: option.splits)
  have z: "focus ''zIndex'' = Some (JNumber 1)"
    and nz: "\<And>k. k \<noteq> ''zIndex'' \<Longrightarrow> focus k = js_spread (obj_get styles ''_focus'') k"
    by (simp_all add: focus_def)
  have base: "base_styles ''display'' = Some (JString ''inline-flex'')"
    "base_styles ''alignItems'' = Some (JString ''center'')"
    "base_styles ''justifyContent'' = Some (JString ''center'')"
    "base_styles ''outline'' = Some (JString ''none'')"
    "base_styles ''position'' = Some (JString ''relative'')"
    by (simp_all add: base_styles_def)
  have css: "props ''__css'' = None \<Longrightarrow>
      attr (Button h props r) ''__css'' = JObject (button_styles_of h props)"
    by (simp add: attr_css)
  from merge other inside outside z nz base css in_group_iff [of g] show ?thesis
    unfolding Let_def g_def [symmetric] styles_def [symmetric] focus_def [symmetric]
    by blast
qed

text \<open>C7 at a button inside a group and at one outside.\<close>

theorem final_style_merge_witness:
  "button_styles_of grouped_hooks Map.empty ''_focus''
     = Some (JObject [''boxShadow'' \<mapsto> JString ''outline'', ''zIndex'' \<mapsto> JNumber 1]) \<and>
   button_styles_of grouped_hooks Map.empty ''display'' = Some (JString ''flex'') \<and>
   button_styles_of grouped_hooks Map.empty ''position'' = Some (JString ''relative'') \<and>
   button_styles_of plain_hooks Map.empty ''_focus'' = None \<and>
   attr (Button plain_hooks Map.empty JNull) ''__css'' = JObject (button_styles_of plain_hooks Map.empty)"
  using final_style_merge [of grouped_hooks Map.empty JNull] final_style_merge [of plain_hooks Map.empty JNull]
  by (simp add: Let_def grouped_hooks_def plain_hooks_def in_group_def obj_get_def base_styles_def)

subsection \<open>Defaults of omitted options\<close>


lemma default_to_cases: "default_to v d = (if is_undefined v then d else v)"
  by (cases v) simp_all

text \<open>
  C8: for every input, an option that is omitted (reads as \<^verbatim>\<open>undefined\<close>) takes its
  fallback: \<^verbatim>\<open>iconSpacing\<close> is "0.5rem", for the content and for the spinner;
  \<^verbatim>\<open>spinnerPlacement\<close> is "start", so that a loading button has its spinner first;
  \<^verbatim>\<open>isDisabled\<close> is the explicit value if given, else the group's \<^verbatim>\<open>isDisabled\<close> if
  the button is in a group, else \<^verbatim>\<open>undefined\<close>, which is falsy: the button is not
  disabled. For a button that is not loading and has no passthrough \<^verbatim>\<open>disabled\<close>,
  the root is disabled exactly when that value is truthy.
\<close>

theorem option_fallbacks:
  "let v = options_of h props; g = useButtonGroup h in
   (obj_get props ''iconSpacing'' = JUndefined \<longrightarrow>
      iconSpacing v = JString ''0.5rem'' \<and>
      obj_get (contentProps v) ''iconSpacing'' = JString ''0.5rem'' \<and>
      (\<forall>place. attr (ButtonSpinner place v) ''spacing'' = JString ''0.5rem'')) \<and>
   (obj_get props ''spinnerPlacement'' = JUndefined \<longrightarrow>
      spinnerPlacement v = JString ''start'' \<and>
      (truthy (obj_get props ''isLoading'') \<longrightarrow>
         child_slots (Button h props r) = [ButtonSpinner ''start'' v, content_slot v, JBool False])) \<and>
   isDisabled v =
     (if \<not> is_undefined (obj_get props ''isDisabled'') then obj_get props ''isDisabled''
      else case g of Some grp \<Rightarrow> obj_get grp ''isDisabled'' | None \<Rightarrow> JUndefined) \<and>
   (obj_get props ''isDisabled'' = JUndefined \<and> g = None \<longrightarrow> \<not> truthy (isDisabled v)) \<and>
   (props ''disabled'' = None \<and> \<not> truthy (obj_get props ''isLoading'') \<longrightarrow>
      truthy (attr (Button h props r) ''disabled'') = truthy (isDisabled v))"
proof -
  let ?v = "options_of h props"
  have spacing: "obj_get props ''iconSpacing'' = JUndefined \<Longrightarrow>
      iconSpacing ?v = JString ''0.5rem'' \<and>
      obj_get (contentProps ?v) ''iconSpacing'' = JString ''0.5rem'' \<and>
      (\<forall>place. attr (ButtonSpinner place ?v) ''spacing'' = JString ''0.5rem'')"
    by (simp add: options_of_simps contentProps_get ButtonSpinner_attrs)
  have placement: "obj_get props ''spinnerPlacement'' = JUndefined \<Longrightarrow>
      spinnerPlacement ?v = JString ''start'' \<and>
      (truthy (obj_get props ''isLoading'') \<longrightarrow>
         child_slots (Button h props r) = [ButtonSpinner ''start'' ?v, content_slot ?v, JBool False])"
    by (simp add: options_of_simps child_slots_Button spinner_slot_cases)
  have chain: "isDisabled ?v =
     (if \<not> is_undefined (obj_get props ''isDisabled'') then obj_get props ''isDisabled''
      else case useButtonGroup h of Some grp \<Rightarrow> obj_get grp ''isDisabled'' | None \<Rightarrow> JUndefined)"
    by (simp add: options_of_simps default_to_cases group_get_def)
  have neither: "obj_get props ''isDisabled'' = JUndefined \<Longrightarrow> useButtonGroup h = None \<Longrightarrow>
      \<not> truthy (isDisabled ?v)"
    by (simp add: options_of_simps group_get_def)
  have shown: "props ''disabled'' = None \<Longrightarrow> \<not> truthy (obj_get props ''isLoading'') \<Longrightarrow>
      truthy (attr (Button h props r) ''disabled'') = truthy (isDisabled ?v)"
    by (simp add: attr_disabled js_or_def options_of_simps)
  from spacing placement chain neither shown show ?thesis
    unfolding Let_def by blast
qed

text \<open>C8 at a button with no props, inside the disabling group and outside any, at
  one with an explicit \<^verbatim>\<open>isDisabled={false}\<close> inside the group, and at a loading one.\<close>

theorem option_fallbacks_witness:
  "iconSpacing (options_of grouped_hooks Map.empty) = JString ''0.5rem'' \<and>
   spinnerPlacement (options_of grouped_hooks Map.empty) = JString ''start'' \<and>
   isDisabled (options_of grouped_hooks Map.empty) = JBool True \<and>
   isDisabled (options_of grouped_hooks [''isDisabled'' \<mapsto> JBool False]) = JBool False \<and>
   \<not> truthy (attr (Button plain_hooks Map.empty JNull) ''disabled'') \<and>
   child_slots (Button plain_hooks [''isLoading'' \<mapsto> JBool True] JNull) ! 2 = JBool False"
  using option_fallbacks [of grouped_hooks Map.empty JNull] option_fallbacks [of plain_hooks Map.empty JNull]
    option_fallbacks [of grouped_hooks "[''isDisabled'' \<mapsto> JBool False]" JNull]
    option_fallbacks [of plain_hooks "[''isLoading'' \<mapsto> JBool True]" JNull]
  by (simp add: Let_def obj_get_def grouped_hooks_def plain_hooks_def)

subsection \<open>The class name\<close>

lemma cx_chakra_button:
  "cx [JString ''chakra-button'', c] =
     JString (''chakra-button'' @ (if truthy c then '' '' @ js_to_string c else []))"
  by (simp add: cx_def)

text \<open>
  C9: for every input, the root's class name is "chakra-button", followed by a space and
  the caller's \<^verbatim>\<open>className\<close> when one is supplied (a truthy value; for a string, a
  non-empty one). No other prop has a part in it.
\<close>

theorem root_class_name:
  "attr (Button h props r) ''className'' =
     JString (''chakra-button'' @
        (if truthy (obj_get props ''className'')
         then '' '' @ js_to_string (obj_get props ''className'') else [])) \<and>
   (\<forall>s. obj_get props ''className'' = JString s \<and> s \<noteq> [] \<longrightarrow>
      attr (Button h props r) ''className'' = JString (''chakra-button '' @ s)) \<and>
   (obj_get props ''className'' = JUndefined \<longrightarrow>
      attr (Button h props r) ''className'' = JString ''chakra-button'')"
  by (simp add: attr_className options_of_simps cx_chakra_button)

text \<open>C9 at a loading button with \<^verbatim>\<open>className="wide"\<close> and at one without.\<close>

theorem root_class_name_witness:
  "attr (Button plain_hooks [''className'' \<mapsto> JString ''wide'', ''isLoading'' \<mapsto> JBool True] JNull)
     ''className'' = JString ''chakra-button wide'' \<and>
   attr (Button plain_hooks Map.empty JNull) ''className'' = JString ''chakra-button''"
  using root_class_name [of plain_hooks "[''className'' \<mapsto> JString ''wide'', ''isLoading'' \<mapsto> JBool True]" JNull]
    root_class_name [of plain_hooks Map.empty JNull]
  by (simp add: obj_get_def)

subsection \<open>An empty loading text\<close>





end
